theory Spec2Isabelle
  imports Complex_Main "HOL-Library.Sublist"
begin

section \<open>JSON values and the Python operations applied to them\<close>

text \<open>
  The client in \<^verbatim>\<open>powervs_client.py\<close> works on decoded JSON documents with
  dynamically typed operations (\<^verbatim>\<open>x.get(k, d)\<close>, \<^verbatim>\<open>x[k]\<close>, \<^verbatim>\<open>k in x\<close>,
  \<^verbatim>\<open>for y in x\<close>, \<^verbatim>\<open>x.upper()\<close>, truthiness). Each of them is a function on
  \<open>json\<close> that returns the exception Python raises on a value of the wrong type.
  JSON numbers are restricted to integers. An object is the dictionary \<open>map_of kvs\<close>
  of its key/value list. Python's \<^verbatim>\<open>None\<close> is \<open>JNull\<close>.
\<close>

datatype json =
    JNull
  | JBool bool
  | JInt int
  | JStr string
  | JArr "json list"
  | JObj "(string \<times> json) list"

text \<open>
  The exceptions that occur: \<^verbatim>\<open>requests.RequestException\<close> raised by the transport,
  its subclass \<^verbatim>\<open>HTTPError\<close> raised by \<^verbatim>\<open>raise_for_status\<close>, the decoding error of
  \<^verbatim>\<open>response.json()\<close> (a \<^verbatim>\<open>ValueError\<close> and, in requests, a \<^verbatim>\<open>RequestException\<close>
  as well), the \<^verbatim>\<open>ValueError\<close> of the constructor, and the interpreter's \<^verbatim>\<open>KeyError\<close>,
  \<^verbatim>\<open>TypeError\<close>, \<^verbatim>\<open>AttributeError\<close>.
  The string carried is the message, \<^verbatim>\<open>str(e)\<close>; the wording of the interpreter's
  messages varies with its version. The client catches every \<^verbatim>\<open>HTTPError\<close> in
  \<^verbatim>\<open>get_iam_token\<close> and never turns one into a string, so its message is abbreviated.
\<close>

datatype exn =
    RequestException string
  | HTTPError nat
  | JSONDecodeError string
  | ValueError string
  | KeyError string
  | TypeError string
  | AttributeError string

definition quoted :: "string \<Rightarrow> string" where
  "quoted s = CHR 0x27 # s @ [CHR 0x27]"

fun exn_str :: "exn \<Rightarrow> string" where
  "exn_str (RequestException msg) = msg"
| "exn_str (HTTPError code) = ''HTTP Error''"
| "exn_str (JSONDecodeError msg) = msg"
| "exn_str (ValueError msg) = msg"
| "exn_str (KeyError k) = quoted k"
| "exn_str (TypeError msg) = msg"
| "exn_str (AttributeError msg) = msg"

definition and_then :: "exn + 'a \<Rightarrow> ('a \<Rightarrow> exn + 'b) \<Rightarrow> exn + 'b" where
  "and_then r f = (case r of Inl e \<Rightarrow> Inl e | Inr x \<Rightarrow> f x)"

fun map_exn :: "('a \<Rightarrow> exn + 'b) \<Rightarrow> 'a list \<Rightarrow> exn + 'b list" where
  "map_exn f [] = Inr []"
| "map_exn f (x # xs) =
     and_then (f x) (\<lambda>y. and_then (map_exn f xs) (\<lambda>ys. Inr (y # ys)))"

fun type_name :: "json \<Rightarrow> string" where
  "type_name JNull = ''NoneType''"
| "type_name (JBool b) = ''bool''"
| "type_name (JInt n) = ''int''"
| "type_name (JStr s) = ''str''"
| "type_name (JArr xs) = ''list''"
| "type_name (JObj kvs) = ''dict''"

text \<open>Truthiness, as tested by \<^verbatim>\<open>if x:\<close> and \<^verbatim>\<open>if not x:\<close>.\<close>

fun truthy :: "json \<Rightarrow> bool" where
  "truthy JNull = False"
| "truthy (JBool b) = b"
| "truthy (JInt n) = (n \<noteq> 0)"
| "truthy (JStr s) = (s \<noteq> [])"
| "truthy (JArr xs) = (xs \<noteq> [])"
| "truthy (JObj kvs) = (kvs \<noteq> [])"

definition no_attribute :: "json \<Rightarrow> string \<Rightarrow> exn" where
  "no_attribute v a =
     AttributeError (quoted (type_name v) @ '' object has no attribute '' @ quoted a)"

text \<open>\<^verbatim>\<open>x.get(k, d)\<close>; \<^verbatim>\<open>x.get(k)\<close> is \<open>dict_get x k JNull\<close>.\<close>

fun dict_get :: "json \<Rightarrow> string \<Rightarrow> json \<Rightarrow> exn + json" where
  "dict_get (JObj kvs) k d = Inr (case map_of kvs k of None \<Rightarrow> d | Some v \<Rightarrow> v)"
| "dict_get v k d = Inl (no_attribute v ''get'')"

text \<open>\<^verbatim>\<open>x[k]\<close> with a string key.\<close>

fun subscript :: "json \<Rightarrow> string \<Rightarrow> exn + json" where
  "subscript (JObj kvs) k = (case map_of kvs k of None \<Rightarrow> Inl (KeyError k) | Some v \<Rightarrow> Inr v)"
| "subscript (JArr xs) k = Inl (TypeError ''list indices must be integers or slices, not str'')"
| "subscript (JStr s) k = Inl (TypeError ''string indices must be integers'')"
| "subscript v k = Inl (TypeError (quoted (type_name v) @ '' object is not subscriptable''))"

text \<open>\<^verbatim>\<open>k in x\<close> with a string \<open>k\<close>: key membership, element membership, substring.\<close>

fun contains :: "string \<Rightarrow> json \<Rightarrow> exn + bool" where
  "contains k (JObj kvs) = Inr (map_of kvs k \<noteq> None)"
| "contains k (JArr xs) = Inr (JStr k \<in> set xs)"
| "contains k (JStr s) = Inr (sublist k s)"
| "contains k v = Inl (TypeError (''argument of type '' @ quoted (type_name v) @ '' is not iterable''))"

text \<open>The elements visited by \<^verbatim>\<open>for y in x\<close>.\<close>

fun iterate :: "json \<Rightarrow> exn + json list" where
  "iterate (JArr xs) = Inr xs"
| "iterate (JObj kvs) = Inr (map JStr (remdups (map fst kvs)))"
| "iterate (JStr s) = Inr (map (\<lambda>c. JStr [c]) s)"
| "iterate v = Inl (TypeError (quoted (type_name v) @ '' object is not iterable''))"

text \<open>\<^verbatim>\<open>s.upper()\<close> on ASCII letters; other characters are left as they are.\<close>

definition upper_char :: "char \<Rightarrow> char" where
  "upper_char c =
     (let n = (of_char c :: nat) in if 97 \<le> n \<and> n \<le> 122 then char_of (n - 32) else c)"

definition upper :: "string \<Rightarrow> string" where
  "upper s = map upper_char s"

fun py_upper :: "json \<Rightarrow> exn + string" where
  "py_upper (JStr s) = Inr (upper s)"
| "py_upper v = Inl (no_attribute v ''upper'')"

section \<open>The remote services and the clock\<close>

text \<open>
  A CRN sent in the \<^verbatim>\<open>CRN\<close> header is either the configured \<^verbatim>\<open>self.crn\<close> or the f-string
  \<^verbatim>\<open>f"crn:v1:staging:public:power-iaas:{region}:a/{self.account_id}:{workspace_id}::"\<close>,
  kept as its three interpolated values.
\<close>

datatype crn_value =
    Configured_crn string
  | Workspace_crn json string json

fun crn_truthy :: "crn_value option \<Rightarrow> bool" where
  "crn_truthy None = False"
| "crn_truthy (Some (Configured_crn c)) = (c \<noteq> [])"
| "crn_truthy (Some (Workspace_crn r a w)) = True"

text \<open>
  What \<^verbatim>\<open>get_iam_token\<close> returns: the value of \<^verbatim>\<open>result['access_token']\<close>, or the
  pair \<^verbatim>\<open>("", e)\<close> of its two \<^verbatim>\<open>except\<close> branches. A pair is a non-empty tuple, which
  Python counts as true.
\<close>

datatype token =
    Access_token json
  | Failure_pair exn

fun token_truthy :: "token \<Rightarrow> bool" where
  "token_truthy (Access_token v) = truthy v"
| "token_truthy (Failure_pair e) = True"

text \<open>
  The header dictionary of \<^verbatim>\<open>_get_headers\<close>: \<^verbatim>\<open>Authorization\<close> is \<^verbatim>\<open>f"Bearer {token}"\<close>,
  kept as the token interpolated; \<^verbatim>\<open>Accept\<close> and \<^verbatim>\<open>Content-Type\<close> are constant;
  \<^verbatim>\<open>CRN\<close> is present when a CRN was given.
\<close>

record headers =
  authorization :: token
  crn_header :: "crn_value option"

text \<open>
  The URLs requested, each kept as the values interpolated into its f-string:
  \<^item> \<^verbatim>\<open>f"{base_url}/v1/workspaces"\<close>
  \<^item> \<^verbatim>\<open>f"{workspace_url}/pcloud/v1/cloud-instances/{workspace_id}/pvm-instances"\<close>
  \<^item> \<^verbatim>\<open>f"{workspace_url}/pcloud/v1/cloud-instances/{workspace_id}/pvm-instances/{vm_id}"\<close>
  \<^item> \<^verbatim>\<open>f"{base_url}/v1/networks/{network_id}/network-interfaces"\<close>
  \<^item> \<^verbatim>\<open>f"{workspace_url}/pcloud/v1/cloud-instances/{workspace_id}/pvm-instances/{vm_id}/volumes"\<close>
  \<^item> \<^verbatim>\<open>f"{workspace_url}/pcloud/v1/cloud-instances/{workspace_id}/pvm-instances/{vm_id}/snapshots"\<close>
\<close>

datatype endpoint =
    Workspaces_url string
  | Pvm_instances_url json json
  | Pvm_instance_url json json string
  | Network_interfaces_url string json
  | Volumes_url json json string
  | Snapshots_url json json string

text \<open>
  A remote call: the token exchange (\<^verbatim>\<open>requests.post\<close> with the API key) or a
  \<^verbatim>\<open>requests.get\<close> with its URL, headers and timeout.
\<close>

datatype request =
    Post_token string
  | Get endpoint headers nat

text \<open>
  The outcome of a remote call: the transport raises a \<^verbatim>\<open>RequestException\<close>, or a response
  arrives with a status code and a body that \<^verbatim>\<open>response.json()\<close> either fails to decode
  (\<open>Inl\<close> the message) or decodes (\<open>Inr\<close>).
\<close>

datatype http_outcome =
    Transport_failure string
  | Response nat "string + json"

text \<open>
  The world outside the client: the outcome of the \<open>n\<close>-th interaction when it is the given
  request, and the reading of \<^verbatim>\<open>time.time()\<close> when it is the \<open>n\<close>-th interaction.
\<close>

record environment =
  respond :: "nat \<Rightarrow> request \<Rightarrow> http_outcome"
  clock :: "nat \<Rightarrow> real"

section \<open>The client\<close>

text \<open>The dictionaries built by \<^verbatim>\<open>get_all_workspaces\<close> (keys id, name, region, url).\<close>

record workspace =
  ws_id :: json
  ws_name :: json
  ws_region :: json
  ws_url :: json

text \<open>The values of \<^verbatim>\<open>self._vm_workspace\<close> (keys workspace_id, region, url).\<close>

record route =
  route_workspace_id :: json
  route_region :: json
  route_url :: json

text \<open>
  The attributes of \<^verbatim>\<open>PowerVSClient\<close>, with the number of interactions with the outside so
  far (\<open>tick\<close>) and the remote calls issued so far (\<open>sent\<close>).
\<close>

record client =
  api_key :: string
  account_id :: string
  base_url :: string
  crn :: string
  cloud_instance_id :: string
  workspaces :: "workspace list option"
  workspaces_time :: "real option"
  vm_workspace :: "json \<rightharpoonup> route"
  vm_workspace_time :: "real option"
  tick :: nat
  sent :: "request list"

text \<open>
  \<^verbatim>\<open>_extract_cloud_instance_id_from_crn\<close>: the eighth part of the CRN split at its colons.
\<close>

fun split_on :: "char \<Rightarrow> string \<Rightarrow> string list" where
  "split_on c [] = [[]]"
| "split_on c (x # xs) =
     (if x = c then [] # split_on c xs
      else (case split_on c xs of p # ps \<Rightarrow> (x # p) # ps | [] \<Rightarrow> [[x]]))"

definition extract_cloud_instance_id_from_crn :: "string \<Rightarrow> string" where
  "extract_cloud_instance_id_from_crn c =
     (if c = [] then []
      else (let parts = split_on CHR '':'' c in if 8 \<le> length parts then parts ! 7 else []))"

text \<open>
  \<^verbatim>\<open>__init__\<close>, from the four configured values (their lookup in the environment and in
  \<^verbatim>\<open>config.yaml\<close> is outside the client): both caches start empty.
\<close>

definition new_client :: "string \<Rightarrow> string \<Rightarrow> string \<Rightarrow> string \<Rightarrow> exn + client" where
  "new_client key account base c =
     (if key = [] \<or> account = [] then Inl (ValueError ''API_KEY and ACCOUNT_ID are required'')
      else Inr \<lparr>api_key = key, account_id = account, base_url = base, crn = c,
                cloud_instance_id = (if c \<noteq> [] then extract_cloud_instance_id_from_crn c else []),
                workspaces = None, workspaces_time = None,
                vm_workspace = Map.empty, vm_workspace_time = None,
                tick = 0, sent = []\<rparr>)"

definition WORKSPACE_CACHE_TTL :: real where
  "WORKSPACE_CACHE_TTL = 1800"

definition VM_CACHE_TTL :: real where
  "VM_CACHE_TTL = 300"

definition remote_call :: "environment \<Rightarrow> request \<Rightarrow> client \<Rightarrow> client \<times> http_outcome" where
  "remote_call E r s = (s\<lparr>tick := Suc (tick s), sent := sent s @ [r]\<rparr>, respond E (tick s) r)"

definition time_now :: "environment \<Rightarrow> client \<Rightarrow> client \<times> real" where
  "time_now E s = (s\<lparr>tick := Suc (tick s)\<rparr>, clock E (tick s))"

text \<open>\<^verbatim>\<open>response.json()\<close>.\<close>

fun response_json :: "string + json \<Rightarrow> exn + json" where
  "response_json (Inl msg) = Inl (JSONDecodeError msg)"
| "response_json (Inr j) = Inr j"

text \<open>
  \<^verbatim>\<open>requests.get(...)\<close> followed by \<^verbatim>\<open>.json()\<close>, where the status code is not looked at.
\<close>

fun outcome_json :: "http_outcome \<Rightarrow> exn + json" where
  "outcome_json (Transport_failure msg) = Inl (RequestException msg)"
| "outcome_json (Response code body) = response_json body"

text \<open>
  \<^verbatim>\<open>get_iam_token\<close>: the post raises, or \<^verbatim>\<open>raise_for_status\<close> raises on a status from
  400 to 599, and the first handler returns the pair; then a decoding error or a missing key
  is caught by the second handler, which returns the pair, and any other exception of
  \<^verbatim>\<open>result['access_token']\<close> escapes.
\<close>

fun exchange_result :: "http_outcome \<Rightarrow> exn + token" where
  "exchange_result (Transport_failure msg) = Inr (Failure_pair (RequestException msg))"
| "exchange_result (Response code body) =
     (if 400 \<le> code \<and> code < 600 then Inr (Failure_pair (HTTPError code))
      else (case and_then (response_json body) (\<lambda>result. subscript result ''access_token'') of
              Inr v \<Rightarrow> Inr (Access_token v)
            | Inl (JSONDecodeError msg) \<Rightarrow> Inr (Failure_pair (JSONDecodeError msg))
            | Inl (ValueError msg) \<Rightarrow> Inr (Failure_pair (ValueError msg))
            | Inl (KeyError k) \<Rightarrow> Inr (Failure_pair (KeyError k))
            | Inl e \<Rightarrow> Inl e))"

definition get_iam_token :: "environment \<Rightarrow> client \<Rightarrow> client \<times> (exn + token)" where
  "get_iam_token E s =
     (case remote_call E (Post_token (api_key s)) s of (s1, out) \<Rightarrow> (s1, exchange_result out))"

text \<open>\<^verbatim>\<open>_get_headers\<close>: \<open>None\<close> when the token is false, the header dictionary otherwise.\<close>

definition get_headers ::
  "environment \<Rightarrow> client \<Rightarrow> crn_value option \<Rightarrow> client \<times> (exn + headers option)" where
  "get_headers E s workspace_crn =
     (case get_iam_token E s of
        (s1, Inl e) \<Rightarrow> (s1, Inl e)
      | (s1, Inr tok) \<Rightarrow>
          if \<not> token_truthy tok then (s1, Inr None)
          else (s1, Inr (Some \<lparr>authorization = tok,
                  crn_header = (if crn_truthy workspace_crn then workspace_crn else None)\<rparr>)))"

text \<open>The dictionary built for one entry of the workspace listing.\<close>

definition workspace_detail :: "string \<Rightarrow> json \<Rightarrow> exn + workspace" where
  "workspace_detail base w =
     and_then (dict_get w ''id'' JNull) (\<lambda>i.
     and_then (dict_get w ''name'' JNull) (\<lambda>n.
     and_then (and_then (dict_get w ''location'' (JObj [])) (\<lambda>l. dict_get l ''region'' JNull)) (\<lambda>r.
     and_then (and_then (dict_get w ''location'' (JObj [])) (\<lambda>l. dict_get l ''url'' (JStr base))) (\<lambda>u.
     Inr \<lparr>ws_id = i, ws_name = n, ws_region = r, ws_url = u\<rparr>))))"

definition parse_workspaces :: "string \<Rightarrow> json \<Rightarrow> exn + workspace list" where
  "parse_workspaces base response =
     and_then (and_then (dict_get response ''workspaces'' (JArr [])) iterate)
       (map_exn (workspace_detail base))"

text \<open>
  The live call of \<^verbatim>\<open>get_all_workspaces\<close>: no headers gives the empty list; inside the
  \<^verbatim>\<open>try\<close> the listing is requested, decoded and cached with the time of the clock; any
  exception there gives the cached list when there is one, the empty list otherwise.
\<close>

definition refresh_workspaces :: "environment \<Rightarrow> client \<Rightarrow> client \<times> (exn + workspace list)" where
  "refresh_workspaces E s =
     (case get_headers E s None of
        (s1, Inl e) \<Rightarrow> (s1, Inl e)
      | (s1, Inr None) \<Rightarrow> (s1, Inr [])
      | (s1, Inr (Some h)) \<Rightarrow>
          (case remote_call E (Get (Workspaces_url (base_url s1)) h 120) s1 of
             (s2, out) \<Rightarrow>
               (case and_then (outcome_json out) (parse_workspaces (base_url s2)) of
                  Inl e \<Rightarrow> (s2, Inr (case workspaces s2 of Some cached \<Rightarrow> cached | None \<Rightarrow> []))
                | Inr workspace_list \<Rightarrow>
                    (case time_now E s2 of
                       (s3, t) \<Rightarrow>
                         (s3\<lparr>workspaces := Some workspace_list, workspaces_time := Some t\<rparr>,
                          Inr workspace_list)))))"

text \<open>
  \<^verbatim>\<open>get_all_workspaces\<close>. A timestamp is true when it is set and not zero. With a cached
  list and a true timestamp the clock is read and the list returned if its age is at most
  the TTL; with a cached list and a false timestamp the list is returned; otherwise the
  live call is made.
\<close>

definition get_all_workspaces :: "environment \<Rightarrow> client \<Rightarrow> client \<times> (exn + workspace list)" where
  "get_all_workspaces E s =
     (case workspaces s of
        None \<Rightarrow> refresh_workspaces E s
      | Some cached \<Rightarrow>
          (case workspaces_time s of
             None \<Rightarrow> (s, Inr cached)
           | Some t \<Rightarrow>
               if t = 0 then (s, Inr cached)
               else (case time_now E s of
                       (s1, now) \<Rightarrow>
                         if now - t \<le> WORKSPACE_CACHE_TTL then (s1, Inr cached)
                         else refresh_workspaces E s1)))"

text \<open>
  The second component of the pair returned by \<^verbatim>\<open>_fetch_vms_from_workspace\<close>: the strings
  \<^verbatim>\<open>"Failed to get headers"\<close>, \<^verbatim>\<open>f"HTTP {response.status_code}"\<close> and \<^verbatim>\<open>str(e)\<close>. The
  caller tests it with \<^verbatim>\<open>if error:\<close>, which an empty \<^verbatim>\<open>str(e)\<close> does not pass.
\<close>

datatype fetch_error =
    Header_failure
  | Http_status nat
  | Raised exn

fun error_truthy :: "fetch_error option \<Rightarrow> bool" where
  "error_truthy None = False"
| "error_truthy (Some Header_failure) = True"
| "error_truthy (Some (Http_status code)) = True"
| "error_truthy (Some (Raised e)) = (exn_str e \<noteq> [])"

text \<open>
  \<^verbatim>\<open>_fetch_vms_from_workspace\<close>, returning the pair \<^verbatim>\<open>(data, error)\<close>; first what
  its \<^verbatim>\<open>try\<close> block makes of the outcome of the request.
\<close>

fun listing_result :: "http_outcome \<Rightarrow> json \<times> fetch_error option" where
  "listing_result (Transport_failure msg) = (JNull, Some (Raised (RequestException msg)))"
| "listing_result (Response code body) =
     (if code = 200 then
        (case body of
           Inl msg \<Rightarrow> (JNull, Some (Raised (JSONDecodeError msg)))
         | Inr j \<Rightarrow> (j, None))
      else (JNull, Some (Http_status code)))"

definition fetch_vms_from_workspace ::
  "environment \<Rightarrow> client \<Rightarrow> json \<Rightarrow> crn_value \<Rightarrow> json \<Rightarrow>
     client \<times> (exn + json \<times> fetch_error option)" where
  "fetch_vms_from_workspace E s wid wcrn wurl =
     (case get_headers E s (Some wcrn) of
        (s1, Inl e) \<Rightarrow> (s1, Inl e)
      | (s1, Inr None) \<Rightarrow> (s1, Inr (JNull, Some Header_failure))
      | (s1, Inr (Some h)) \<Rightarrow>
          (case remote_call E (Get (Pvm_instances_url wurl wid) h 240) s1 of
             (s2, out) \<Rightarrow> (s2, Inr (listing_result out))))"

text \<open>
  The dictionary of \<^verbatim>\<open>_build_vm_detail\<close>; the two workspace keys are there when
  \<^verbatim>\<open>workspace_info\<close> (a dictionary with keys name and region) was given.
\<close>

record vm_detail =
  vmName :: json
  vmID :: json
  operatingSystem :: json
  systemType :: json
  vmStatus :: json
  health :: json
  vm_crn :: json
  workspaceName :: "json option"
  workspaceRegion :: "json option"

definition lookup_or :: "(string \<times> json) list \<Rightarrow> string \<Rightarrow> json \<Rightarrow> json" where
  "lookup_or kvs k d = (case map_of kvs k of None \<Rightarrow> d | Some v \<Rightarrow> v)"

fun build_vm_detail :: "json \<Rightarrow> (json \<times> json) option \<Rightarrow> exn + vm_detail" where
  "build_vm_detail (JObj pvm) workspace_info =
     Inr \<lparr>vmName = lookup_or pvm ''serverName'' JNull,
          vmID = lookup_or pvm ''pvmInstanceID'' JNull,
          operatingSystem = lookup_or pvm ''osType'' JNull,
          systemType = lookup_or pvm ''sysType'' JNull,
          vmStatus = lookup_or pvm ''status'' JNull,
          health = lookup_or pvm ''health'' (JObj [(''status'', JStr ''UNKNOWN'')]),
          vm_crn = lookup_or pvm ''crn'' (JStr []),
          workspaceName = map_option fst workspace_info,
          workspaceRegion = map_option snd workspace_info\<rparr>"
| "build_vm_detail v workspace_info = Inl (no_attribute v ''get'')"

text \<open>
  The assignment \<^verbatim>\<open>self._vm_workspace[vm_id] = ...\<close>: a list or a dictionary is not
  hashable. The keys of the map are JSON values; Python takes the keys \<^verbatim>\<open>1\<close> and
  \<^verbatim>\<open>True\<close> for one, which no lookup shows, every lookup being by a string.
\<close>

fun store_route :: "json \<Rightarrow> route \<Rightarrow> (json \<rightharpoonup> route) \<Rightarrow> exn + (json \<rightharpoonup> route)" where
  "store_route (JArr xs) r m = Inl (TypeError (''unhashable type: '' @ quoted ''list''))"
| "store_route (JObj kvs) r m = Inl (TypeError (''unhashable type: '' @ quoted ''dict''))"
| "store_route k r m = Inr (m(k \<mapsto> r))"

text \<open>
  \<^verbatim>\<open>vm_detail.get("health", {}).get("status", "UNKNOWN").upper()\<close> and
  \<^verbatim>\<open>vm_detail.get("vmStatus", "UNKNOWN").upper()\<close>; both keys are always in the dictionary.
\<close>

definition health_status_of :: "vm_detail \<Rightarrow> exn + string" where
  "health_status_of d = and_then (dict_get (health d) ''status'' (JStr ''UNKNOWN'')) py_upper"

definition vm_status_of :: "vm_detail \<Rightarrow> exn + string" where
  "vm_status_of d = py_upper (vmStatus d)"

text \<open>\<^verbatim>\<open>if key in summary: summary[key] += 1\<close> on a dictionary of counters.\<close>

definition bump :: "string \<Rightarrow> (string \<times> nat) list \<Rightarrow> (string \<times> nat) list" where
  "bump key summary = map (\<lambda>(k, n). if k = key then (k, Suc n) else (k, n)) summary"

text \<open>The local variables of the fan-out loop.\<close>

record tally =
  vm_list :: "vm_detail list"
  health_summary :: "(string \<times> nat) list"
  status_summary :: "(string \<times> nat) list"

definition initial_tally :: tally where
  "initial_tally =
     \<lparr>vm_list = [],
      health_summary = [(''OK'', 0), (''CRITICAL'', 0), (''WARNING'', 0), (''ATTENTION'', 0)],
      status_summary = [(''ACTIVE'', 0), (''ERROR'', 0), (''SHUTOFF'', 0)]\<rparr>"

definition route_of :: "workspace \<Rightarrow> route" where
  "route_of w = \<lparr>route_workspace_id = ws_id w, route_region = ws_region w, route_url = ws_url w\<rparr>"

text \<open>
  The body of the inner loop, for one entry of \<^verbatim>\<open>pvmInstances\<close>: the record is appended,
  the routing entry stored when the identifier is true, the two statuses normalised, the
  counters updated. An exception leaves the routing map as far as it was written.
\<close>

definition add_vm :: "workspace \<Rightarrow> json \<Rightarrow> client \<Rightarrow> tally \<Rightarrow> client \<times> (exn + tally)" where
  "add_vm w pvm s acc =
     (case build_vm_detail pvm (Some (ws_name w, ws_region w)) of
        Inl e \<Rightarrow> (s, Inl e)
      | Inr d \<Rightarrow>
          (case (if truthy (vmID d) then store_route (vmID d) (route_of w) (vm_workspace s)
                 else Inr (vm_workspace s)) of
             Inl e \<Rightarrow> (s, Inl e)
           | Inr m \<Rightarrow>
               (case health_status_of d of
                  Inl e \<Rightarrow> (s\<lparr>vm_workspace := m\<rparr>, Inl e)
                | Inr health_status \<Rightarrow>
                    (case vm_status_of d of
                       Inl e \<Rightarrow> (s\<lparr>vm_workspace := m\<rparr>, Inl e)
                     | Inr vm_status \<Rightarrow>
                         (s\<lparr>vm_workspace := m\<rparr>,
                          Inr (acc\<lparr>vm_list := vm_list acc @ [d],
                                 health_summary := bump health_status (health_summary acc),
                                 status_summary := bump vm_status (status_summary acc)\<rparr>))))))"

fun add_vms :: "workspace \<Rightarrow> json list \<Rightarrow> client \<Rightarrow> tally \<Rightarrow> client \<times> (exn + tally)" where
  "add_vms w [] s acc = (s, Inr acc)"
| "add_vms w (pvm # pvms) s acc =
     (case add_vm w pvm s acc of
        (s1, Inl e) \<Rightarrow> (s1, Inl e)
      | (s1, Inr acc1) \<Rightarrow> add_vms w pvms s1 acc1)"

text \<open>
  The body of the outer loop, for one workspace: skipped when its identifier is false, when
  the fetch reports an error, and when \<^verbatim>\<open>'pvmInstances' not in vm_data\<close>.
\<close>

definition visit_workspace ::
  "environment \<Rightarrow> workspace \<Rightarrow> client \<Rightarrow> tally \<Rightarrow> client \<times> (exn + tally)" where
  "visit_workspace E w s acc =
     (if \<not> truthy (ws_id w) then (s, Inr acc)
      else
        (case fetch_vms_from_workspace E s (ws_id w)
                (Workspace_crn (ws_region w) (account_id s) (ws_id w)) (ws_url w) of
           (s1, Inl e) \<Rightarrow> (s1, Inl e)
         | (s1, Inr (vm_data, error)) \<Rightarrow>
             if error_truthy error then (s1, Inr acc)
             else
               (case contains ''pvmInstances'' vm_data of
                  Inl e \<Rightarrow> (s1, Inl e)
                | Inr False \<Rightarrow> (s1, Inr acc)
                | Inr True \<Rightarrow>
                    (case and_then (subscript vm_data ''pvmInstances'') iterate of
                       Inl e \<Rightarrow> (s1, Inl e)
                     | Inr pvms \<Rightarrow> add_vms w pvms s1 acc))))"

fun visit_all ::
  "environment \<Rightarrow> workspace list \<Rightarrow> client \<Rightarrow> tally \<Rightarrow> client \<times> (exn + tally)" where
  "visit_all E [] s acc = (s, Inr acc)"
| "visit_all E (w # ws) s acc =
     (case visit_workspace E w s acc of
        (s1, Inl e) \<Rightarrow> (s1, Inl e)
      | (s1, Inr acc1) \<Rightarrow> visit_all E ws s1 acc1)"

text \<open>The result of the fan-out: \<^verbatim>\<open>{"error": ...}\<close> or the inventory dictionary.\<close>

record inventory =
  total_vms :: nat
  total_workspaces :: nat
  inv_health_summary :: "(string \<times> nat) list"
  inv_status_summary :: "(string \<times> nat) list"
  vms :: "vm_detail list"

datatype fanout_result =
    Fanout_error string
  | Inventory inventory

text \<open>
  \<^verbatim>\<open>fetch_vms_from_all_workspaces\<close>: the routing map is set to the empty dictionary once a
  non-empty workspace list is there, rebuilt by the loop, and stamped with the clock at the
  end.
\<close>

definition fetch_vms_from_all_workspaces ::
  "environment \<Rightarrow> client \<Rightarrow> client \<times> (exn + fanout_result)" where
  "fetch_vms_from_all_workspaces E s =
     (case get_all_workspaces E s of
        (s0, Inl e) \<Rightarrow> (s0, Inl e)
      | (s0, Inr all_workspaces) \<Rightarrow>
          if all_workspaces = [] then (s0, Inr (Fanout_error ''No workspaces found''))
          else
            (case visit_all E all_workspaces (s0\<lparr>vm_workspace := Map.empty\<rparr>) initial_tally of
               (s1, Inl e) \<Rightarrow> (s1, Inl e)
             | (s1, Inr acc) \<Rightarrow>
                 (case time_now E s1 of
                    (s2, t) \<Rightarrow>
                      (s2\<lparr>vm_workspace_time := Some t\<rparr>,
                       Inr (Inventory
                         \<lparr>total_vms = length (vm_list acc),
                          total_workspaces = length all_workspaces,
                          inv_health_summary = health_summary acc,
                          inv_status_summary = status_summary acc,
                          vms = vm_list acc\<rparr>)))))"

text \<open>
  The lookup of \<^verbatim>\<open>_get_workspace_for_vm\<close> after its refresh: the routing entry of the VM,
  else the configured workspace, else \<^verbatim>\<open>(None, None, None)\<close>.
\<close>

definition lookup_workspace :: "client \<Rightarrow> string \<Rightarrow> json \<times> crn_value option \<times> json" where
  "lookup_workspace s vm_id =
     (case vm_workspace s (JStr vm_id) of
        Some r \<Rightarrow>
          (route_workspace_id r,
           Some (Workspace_crn (route_region r) (account_id s) (route_workspace_id r)),
           route_url r)
      | None \<Rightarrow>
          if crn s \<noteq> [] \<and> cloud_instance_id s \<noteq> []
          then (JStr (cloud_instance_id s), Some (Configured_crn (crn s)), JStr (base_url s))
          else (JNull, None, JNull))"

text \<open>
  \<^verbatim>\<open>_get_workspace_for_vm\<close>: when the timestamp of the routing map is true, the clock is
  read, and an age above the TTL runs the fan-out, whose result is dropped; then the lookup.
\<close>

definition get_workspace_for_vm ::
  "environment \<Rightarrow> client \<Rightarrow> string \<Rightarrow> client \<times> (exn + json \<times> crn_value option \<times> json)" where
  "get_workspace_for_vm E s vm_id =
     (case vm_workspace_time s of
        None \<Rightarrow> (s, Inr (lookup_workspace s vm_id))
      | Some t \<Rightarrow>
          if t = 0 then (s, Inr (lookup_workspace s vm_id))
          else
            (case time_now E s of
               (s1, now) \<Rightarrow>
                 if now - t > VM_CACHE_TTL then
                   (case fetch_vms_from_all_workspaces E s1 of
                      (s2, Inl e) \<Rightarrow> (s2, Inl e)
                    | (s2, Inr result) \<Rightarrow> (s2, Inr (lookup_workspace s2 vm_id)))
                 else (s1, Inr (lookup_workspace s1 vm_id))))"

section \<open>Health of one VM\<close>

fun fold_exn :: "('a \<Rightarrow> 'b \<Rightarrow> exn + 'b) \<Rightarrow> 'a list \<Rightarrow> 'b \<Rightarrow> exn + 'b" where
  "fold_exn f [] a = Inr a"
| "fold_exn f (x # xs) a = and_then (f x a) (fold_exn f xs)"

text \<open>
  The result of \<^verbatim>\<open>get_network_health\<close>: \<^verbatim>\<open>{"error": ...}\<close>, or the status under
  \<^verbatim>\<open>network_health\<close> with the list \<^verbatim>\<open>interfaces_down\<close>.
\<close>

datatype network_result =
    Network_error string
  | Network_report string "json list"

text \<open>
  One interface of a network: it counts when it is attached to the VM, as active when its
  status is \<^verbatim>\<open>ACTIVE\<close> and as down otherwise. The pair is
  \<^verbatim>\<open>(active_network_interfaces, down_network_interfaces)\<close>.
\<close>

definition classify_interface ::
  "string \<Rightarrow> json \<Rightarrow> json list \<times> json list \<Rightarrow> exn + json list \<times> json list" where
  "classify_interface vm_id interface buckets =
     and_then (and_then (dict_get interface ''pvmInstance'' (JObj []))
                 (\<lambda>p. dict_get p ''pvmInstanceID'' JNull)) (\<lambda>owner.
       if owner = JStr vm_id then
         and_then (dict_get interface ''status'' JNull) (\<lambda>st.
         and_then (dict_get interface ''ipAddress'' JNull) (\<lambda>ip.
           if st = JStr ''ACTIVE'' then Inr (fst buckets @ [ip], snd buckets)
           else Inr (fst buckets, snd buckets @ [ip])))
       else Inr buckets)"

text \<open>The loop over the networks of the VM, one request for each.\<close>

fun scan_networks ::
  "environment \<Rightarrow> client \<Rightarrow> headers \<Rightarrow> string \<Rightarrow> json list \<Rightarrow> json list \<times> json list \<Rightarrow>
     client \<times> (exn + json list \<times> json list)" where
  "scan_networks E s h vm_id [] buckets = (s, Inr buckets)"
| "scan_networks E s h vm_id (network # rest) buckets =
     (case dict_get network ''networkID'' JNull of
        Inl e \<Rightarrow> (s, Inl e)
      | Inr network_id \<Rightarrow>
          (case remote_call E (Get (Network_interfaces_url (base_url s) network_id) h 120) s of
             (s1, out) \<Rightarrow>
               (case and_then
                       (and_then
                          (and_then (outcome_json out)
                             (\<lambda>data. dict_get data ''networkInterfaces'' (JArr [])))
                          iterate)
                       (\<lambda>interfaces. fold_exn (classify_interface vm_id) interfaces buckets) of
                  Inl e \<Rightarrow> (s1, Inl e)
                | Inr buckets1 \<Rightarrow> scan_networks E s1 h vm_id rest buckets1)))"

text \<open>
  The second half of \<^verbatim>\<open>get_network_health\<close>, from the VM document on: the loop over
  its networks and the dictionary returned.
\<close>

definition inspect_networks ::
  "environment \<Rightarrow> client \<Rightarrow> headers \<Rightarrow> string \<Rightarrow> json \<Rightarrow> client \<times> (exn + network_result)" where
  "inspect_networks E s h vm_id vm_data =
     (case and_then (dict_get vm_data ''networks'' (JArr [])) iterate of
        Inl e \<Rightarrow> (s, Inl e)
      | Inr vm_networks \<Rightarrow>
          (case scan_networks E s h vm_id vm_networks ([], []) of
             (s1, Inl e) \<Rightarrow> (s1, Inl e)
           | (s1, Inr (active, down)) \<Rightarrow>
               (s1, Inr (Network_report (if down = [] then ''OK'' else ''CRITICAL'') down))))"

text \<open>
  \<^verbatim>\<open>get_network_health(vm_id, vm_data=None)\<close>. No statement of it is inside a \<^verbatim>\<open>try\<close>.
\<close>

definition get_network_health ::
  "environment \<Rightarrow> client \<Rightarrow> string \<Rightarrow> json \<Rightarrow> client \<times> (exn + network_result)" where
  "get_network_health E s vm_id vm_data0 =
     (case get_workspace_for_vm E s vm_id of
        (s1, Inl e) \<Rightarrow> (s1, Inl e)
      | (s1, Inr (workspace_id, workspace_crn, workspace_url)) \<Rightarrow>
          if \<not> truthy workspace_id then (s1, Inr (Network_error ''VM not found.''))
          else
            (case get_headers E s1 workspace_crn of
               (s2, Inl e) \<Rightarrow> (s2, Inl e)
             | (s2, Inr None) \<Rightarrow> (s2, Inr (Network_error ''Failed to get headers''))
             | (s2, Inr (Some h)) \<Rightarrow>
                 if vm_data0 = JNull then
                   (case remote_call E
                           (Get (Pvm_instance_url workspace_url workspace_id vm_id) h 120) s2 of
                      (s3, out) \<Rightarrow>
                        (case outcome_json out of
                           Inl e \<Rightarrow> (s3, Inl e)
                         | Inr vm_data \<Rightarrow> inspect_networks E s3 h vm_id vm_data))
                 else inspect_networks E s2 h vm_id vm_data0))"

text \<open>
  The result of \<^verbatim>\<open>get_storage_health\<close>: \<^verbatim>\<open>{"error": ...}\<close>, or the status under
  \<^verbatim>\<open>storage_health\<close> with the list \<^verbatim>\<open>unhealthy_volumes\<close> of name and state.
\<close>

record volume_issue =
  volume_name :: json
  volume_state :: json

datatype storage_result =
    Storage_error string
  | Storage_report string "volume_issue list"

definition healthy_volume_states :: "string list" where
  "healthy_volume_states = [''in-use'', ''available'', ''creating'', ''attaching'', ''detaching'']"

definition check_volume :: "json \<Rightarrow> volume_issue list \<Rightarrow> exn + volume_issue list" where
  "check_volume volume unhealthy =
     and_then (dict_get volume ''state'' (JStr [])) (\<lambda>st.
       if st \<notin> set (map JStr healthy_volume_states) then
         and_then (dict_get volume ''name'' JNull) (\<lambda>n.
           Inr (unhealthy @ [\<lparr>volume_name = n, volume_state = st\<rparr>]))
       else Inr unhealthy)"

text \<open>
  The second half of \<^verbatim>\<open>get_storage_health\<close>: what it makes of the outcome of its
  request.
\<close>

definition inspect_volumes :: "http_outcome \<Rightarrow> exn + storage_result" where
  "inspect_volumes out =
     (case and_then
             (and_then (and_then (outcome_json out) (\<lambda>data. dict_get data ''volumes'' (JArr [])))
                iterate)
             (\<lambda>volumes. fold_exn check_volume volumes []) of
        Inl e \<Rightarrow> Inl e
      | Inr unhealthy \<Rightarrow>
          Inr (Storage_report (if unhealthy = [] then ''OK'' else ''CRITICAL'') unhealthy))"

text \<open>\<^verbatim>\<open>get_storage_health(vm_id)\<close>. No statement of it is inside a \<^verbatim>\<open>try\<close>.\<close>

definition get_storage_health ::
  "environment \<Rightarrow> client \<Rightarrow> string \<Rightarrow> client \<times> (exn + storage_result)" where
  "get_storage_health E s vm_id =
     (case get_workspace_for_vm E s vm_id of
        (s1, Inl e) \<Rightarrow> (s1, Inl e)
      | (s1, Inr (workspace_id, workspace_crn, workspace_url)) \<Rightarrow>
          if \<not> truthy workspace_id then (s1, Inr (Storage_error ''VM not found.''))
          else
            (case get_headers E s1 workspace_crn of
               (s2, Inl e) \<Rightarrow> (s2, Inl e)
             | (s2, Inr None) \<Rightarrow> (s2, Inr (Storage_error ''Failed to get headers''))
             | (s2, Inr (Some h)) \<Rightarrow>
                 (case remote_call E (Get (Volumes_url workspace_url workspace_id vm_id) h 120) s2 of
                    (s3, out) \<Rightarrow> (s3, inspect_volumes out))))"

text \<open>The result of \<^verbatim>\<open>get_vm_health\<close>: \<^verbatim>\<open>{"error": ...}\<close> or the health dictionary.\<close>

record vm_health =
  health_vmName :: json
  health_vmID :: string
  overall_health :: string
  vm_status :: json
  network_health :: string
  storage_health :: string
  network_issues :: "json list"
  storage_issues :: "volume_issue list"









section \<open>Listing and filtering VMs\<close>

text \<open>
  \<^verbatim>\<open>fetch_vms_from_specific_workspace\<close>: the handlers catch \<^verbatim>\<open>requests.RequestException\<close>
  and \<^verbatim>\<open>ValueError\<close>; other exceptions escape.
\<close>

definition fetch_vms_from_specific_workspace ::
  "environment \<Rightarrow> client \<Rightarrow> client \<times> (exn + vm_detail list)" where
  "fetch_vms_from_specific_workspace E s =
     (case get_headers E s (Some (Configured_crn (crn s))) of
        (s1, Inl e) \<Rightarrow> (s1, Inl e)
      | (s1, Inr None) \<Rightarrow> (s1, Inr [])
      | (s1, Inr (Some h)) \<Rightarrow>
          (case remote_call E
                  (Get (Pvm_instances_url (JStr (base_url s1)) (JStr (cloud_instance_id s1))) h 120)
                  s1 of
             (s2, out) \<Rightarrow>
               (case and_then
                       (and_then
                          (and_then (outcome_json out) (\<lambda>responses. subscript responses ''pvmInstances''))
                          iterate)
                       (map_exn (\<lambda>pvm. build_vm_detail pvm None)) of
                  Inr all_vms \<Rightarrow> (s2, Inr all_vms)
                | Inl (RequestException msg) \<Rightarrow> (s2, Inr [])
                | Inl (HTTPError code) \<Rightarrow> (s2, Inr [])
                | Inl (JSONDecodeError msg) \<Rightarrow> (s2, Inr [])
                | Inl (ValueError msg) \<Rightarrow> (s2, Inr [])
                | Inl e \<Rightarrow> (s2, Inl e))))"

text \<open>\<^verbatim>\<open>get_all_vms\<close> returns a list in single-workspace mode, the fan-out result otherwise.\<close>

datatype all_vms_result =
    Vm_list "vm_detail list"
  | Aggregated fanout_result

definition single_workspace_mode :: "client \<Rightarrow> bool" where
  "single_workspace_mode s = (crn s \<noteq> [] \<and> cloud_instance_id s \<noteq> [])"

definition get_all_vms :: "environment \<Rightarrow> client \<Rightarrow> client \<times> (exn + all_vms_result)" where
  "get_all_vms E s =
     (if single_workspace_mode s then
        (case fetch_vms_from_specific_workspace E s of
           (s1, Inl e) \<Rightarrow> (s1, Inl e)
         | (s1, Inr l) \<Rightarrow> (s1, Inr (Vm_list l)))
      else
        (case fetch_vms_from_all_workspaces E s of
           (s1, Inl e) \<Rightarrow> (s1, Inl e)
         | (s1, Inr r) \<Rightarrow> (s1, Inr (Aggregated r))))"

text \<open>
  The result of \<^verbatim>\<open>fetch_vms_by_health_status\<close>: \<^verbatim>\<open>{"error": ...}\<close>, or \<^verbatim>\<open>total_vms\<close> with
  the list \<^verbatim>\<open>vms\<close>.
\<close>

datatype filter_result =
    Filter_error string
  | Filtered nat "vm_detail list"

text \<open>The test of the filter loop; the key \<^verbatim>\<open>health\<close> is always in the dictionary.\<close>

definition vm_matches :: "string \<Rightarrow> vm_detail \<Rightarrow> exn + bool" where
  "vm_matches health_status vm =
     and_then (py_upper (case health vm of
                           JObj kvs \<Rightarrow> lookup_or kvs ''status'' (JStr ''UNKNOWN'')
                         | _ \<Rightarrow> JStr ''UNKNOWN''))
       (\<lambda>u. Inr (u = upper health_status))"

fun filter_exn :: "('a \<Rightarrow> exn + bool) \<Rightarrow> 'a list \<Rightarrow> exn + 'a list" where
  "filter_exn p [] = Inr []"
| "filter_exn p (x # xs) =
     and_then (p x) (\<lambda>b. and_then (filter_exn p xs) (\<lambda>ys. Inr (if b then x # ys else ys)))"

fun fanout_vms :: "fanout_result \<Rightarrow> vm_detail list" where
  "fanout_vms (Fanout_error msg) = []"
| "fanout_vms (Inventory i) = vms i"

text \<open>
  \<^verbatim>\<open>fetch_vms_by_health_status(health_status)\<close>: in single-workspace mode a bare
  \<^verbatim>\<open>except\<close> turns every exception of the listing into the empty list; otherwise the
  fan-out is run and its \<^verbatim>\<open>vms\<close> taken (\<^verbatim>\<open>result.get('vms', [])\<close>). The filter loop is outside
  any \<^verbatim>\<open>try\<close>.
\<close>

definition fetch_vms_by_health_status ::
  "environment \<Rightarrow> client \<Rightarrow> string \<Rightarrow> client \<times> (exn + filter_result)" where
  "fetch_vms_by_health_status E s health_status =
     (case (if single_workspace_mode s then
              (case get_headers E s (Some (Configured_crn (crn s))) of
                 (s1, Inl e) \<Rightarrow> (s1, Inl e)
               | (s1, Inr None) \<Rightarrow> (s1, Inr (Inl ''Failed to get headers''))
               | (s1, Inr (Some h)) \<Rightarrow>
                   (case remote_call E
                           (Get (Pvm_instances_url (JStr (base_url s1)) (JStr (cloud_instance_id s1)))
                              h 120) s1 of
                      (s2, out) \<Rightarrow>
                        (case and_then
                                (and_then
                                   (and_then (outcome_json out)
                                      (\<lambda>responses. subscript responses ''pvmInstances''))
                                   iterate)
                                (map_exn (\<lambda>pvm. build_vm_detail pvm None)) of
                           Inr all_vms \<Rightarrow> (s2, Inr (Inr all_vms))
                         | Inl e \<Rightarrow> (s2, Inr (Inr [])))))
            else
              (case fetch_vms_from_all_workspaces E s of
                 (s1, Inl e) \<Rightarrow> (s1, Inl e)
               | (s1, Inr result) \<Rightarrow> (s1, Inr (Inr (fanout_vms result))))) of
        (s', Inl e) \<Rightarrow> (s', Inl e)
      | (s', Inr (Inl msg)) \<Rightarrow> (s', Inr (Filter_error msg))
      | (s', Inr (Inr all_vms)) \<Rightarrow>
          (case filter_exn (vm_matches health_status) all_vms of
             Inl e \<Rightarrow> (s', Inl e)
           | Inr filtered_vms \<Rightarrow> (s', Inr (Filtered (length filtered_vms) filtered_vms))))"

definition get_critical_vms :: "environment \<Rightarrow> client \<Rightarrow> client \<times> (exn + filter_result)" where
  "get_critical_vms E s = fetch_vms_by_health_status E s ''CRITICAL''"

text \<open>
  \<^verbatim>\<open>get_vm_snapshots(vm_id)\<close>, whose request and decoding are inside a \<^verbatim>\<open>try\<close> that turns
  every exception into an error dictionary.
\<close>

record snapshot_detail =
  snapshotID :: json
  snapshot_name :: json
  snapshot_description :: json
  snapshot_status :: json
  creationDate :: json
  lastUpdateDate :: json
  pvmInstanceID :: json
  volumeSnapshots :: json

datatype snapshots_result =
    Snapshots_error string
  | Snapshots string nat "snapshot_detail list"

fun build_snapshot :: "json \<Rightarrow> exn + snapshot_detail" where
  "build_snapshot (JObj snapshot) =
     Inr \<lparr>snapshotID = lookup_or snapshot ''snapshotID'' JNull,
          snapshot_name = lookup_or snapshot ''name'' JNull,
          snapshot_description = lookup_or snapshot ''description'' JNull,
          snapshot_status = lookup_or snapshot ''status'' JNull,
          creationDate = lookup_or snapshot ''creationDate'' JNull,
          lastUpdateDate = lookup_or snapshot ''lastUpdateDate'' JNull,
          pvmInstanceID = lookup_or snapshot ''pvmInstanceID'' JNull,
          volumeSnapshots = lookup_or snapshot ''volumeSnapshots'' (JArr [])\<rparr>"
| "build_snapshot v = Inl (no_attribute v ''get'')"

definition get_vm_snapshots ::
  "environment \<Rightarrow> client \<Rightarrow> string \<Rightarrow> client \<times> (exn + snapshots_result)" where
  "get_vm_snapshots E s vm_id =
     (case get_workspace_for_vm E s vm_id of
        (s1, Inl e) \<Rightarrow> (s1, Inl e)
      | (s1, Inr (workspace_id, workspace_crn, workspace_url)) \<Rightarrow>
          if \<not> truthy workspace_id then (s1, Inr (Snapshots_error ''VM not found.''))
          else
            (case get_headers E s1 workspace_crn of
               (s2, Inl e) \<Rightarrow> (s2, Inl e)
             | (s2, Inr None) \<Rightarrow> (s2, Inr (Snapshots_error ''Failed to get headers''))
             | (s2, Inr (Some h)) \<Rightarrow>
                 (case remote_call E (Get (Snapshots_url workspace_url workspace_id vm_id) h 120) s2 of
                    (s3, out) \<Rightarrow>
                      (case and_then
                              (and_then
                                 (and_then (outcome_json out)
                                    (\<lambda>data. dict_get data ''snapshots'' (JArr [])))
                                 iterate)
                              (map_exn build_snapshot) of
                         Inl e \<Rightarrow>
                           (s3, Inr (Snapshots_error
                                       (''Failed to get the instance snapshots: '' @ exn_str e)))
                       | Inr snapshot_list \<Rightarrow>
                           (s3, Inr (Snapshots vm_id (length snapshot_list) snapshot_list))))))"

section \<open>Concrete clients and remote services\<close>

text \<open>
  A client in account-wide mode (no CRN configured) and one in single-workspace mode, both
  with empty caches, as \<^verbatim>\<open>__init__\<close> leaves them.
\<close>

definition account_client :: client where
  "account_client =
     \<lparr>api_key = ''key'', account_id = ''acct'', base_url = ''https://api.test'',
      crn = [], cloud_instance_id = [],
      workspaces = None, workspaces_time = None,
      vm_workspace = Map.empty, vm_workspace_time = None,
      tick = 0, sent = []\<rparr>"

definition single_client :: client where
  "single_client =
     account_client\<lparr>crn := ''crn:v1:staging:public:power-iaas:dal10:a/acct:inst1::'',
                     cloud_instance_id := ''inst1''\<rparr>"

definition dal10 :: workspace where
  "dal10 = \<lparr>ws_id = JStr ''ws-dal10'', ws_name = JStr ''DAL10'', ws_region = JStr ''dal10'',
            ws_url = JStr ''https://dal10.test''\<rparr>"

definition dal12 :: workspace where
  "dal12 = \<lparr>ws_id = JStr ''ws-dal12'', ws_name = JStr ''DAL12'', ws_region = JStr ''dal12'',
            ws_url = JStr ''https://dal12.test''\<rparr>"

definition dal13 :: workspace where
  "dal13 = \<lparr>ws_id = JStr ''ws-dal13'', ws_name = JStr ''DAL13'', ws_region = JStr ''dal13'',
            ws_url = JStr ''https://dal13.test''\<rparr>"

text \<open>A client whose workspace list was cached at time 1000.\<close>

definition cached_client :: client where
  "cached_client = account_client\<lparr>workspaces := Some [dal10], workspaces_time := Some 1000\<rparr>"

text \<open>A client that also holds a routing entry for \<^verbatim>\<open>vm1\<close>, written at time 1000.\<close>

definition routed_client :: client where
  "routed_client =
     cached_client\<lparr>vm_workspace := [JStr ''vm1'' \<mapsto> route_of dal10],
                    vm_workspace_time := Some 1000\<rparr>"


definition token_document :: json where
  "token_document = JObj [(''access_token'', JStr ''tok''), (''expires_in'', JInt 3600)]"

text \<open>Every remote call fails in the transport.\<close>

definition unreachable :: "real \<Rightarrow> environment" where
  "unreachable now = \<lparr>respond = (\<lambda>n r. Transport_failure ''unreachable''), clock = (\<lambda>n. now)\<rparr>"

text \<open>The token exchange answers 200 with a document that has no \<^verbatim>\<open>access_token\<close>.\<close>

definition tokenless :: "real \<Rightarrow> environment" where
  "tokenless now =
     \<lparr>respond = (\<lambda>n r. case r of
                     Post_token k \<Rightarrow> Response 200 (Inr (JObj [(''expires_in'', JInt 0)]))
                   | Get u h t \<Rightarrow> Transport_failure ''unreachable''),
      clock = (\<lambda>n. now)\<rparr>"

text \<open>The token exchange answers 200 with an empty \<^verbatim>\<open>access_token\<close>.\<close>

definition empty_token :: "real \<Rightarrow> environment" where
  "empty_token now =
     \<lparr>respond = (\<lambda>n r. case r of
                     Post_token k \<Rightarrow> Response 200 (Inr (JObj [(''access_token'', JStr [])]))
                   | Get u h t \<Rightarrow> Transport_failure ''unreachable''),
      clock = (\<lambda>n. now)\<rparr>"

text \<open>The token exchange works and every other request fails in the transport.\<close>

definition resources_down :: "real \<Rightarrow> environment" where
  "resources_down now =
     \<lparr>respond = (\<lambda>n r. case r of
                     Post_token k \<Rightarrow> Response 200 (Inr token_document)
                   | Get u h t \<Rightarrow> Transport_failure ''connection refused''),
      clock = (\<lambda>n. now)\<rparr>"

text \<open>
  The token exchange works and every other request is answered with status 401 and an error
  document.
\<close>

definition unauthorized :: "real \<Rightarrow> environment" where
  "unauthorized now =
     \<lparr>respond = (\<lambda>n r. case r of
                     Post_token k \<Rightarrow> Response 200 (Inr token_document)
                   | Get u h t \<Rightarrow>
                       Response 401 (Inr (JObj [(''description'', JStr ''unauthorized'')]))),
      clock = (\<lambda>n. now)\<rparr>"





text \<open>
  An account with three workspaces: \<^verbatim>\<open>ws-dal10\<close> lists two VMs, the listing of
  \<^verbatim>\<open>ws-dal12\<close> fails in the transport, \<^verbatim>\<open>ws-dal13\<close> lists one VM whose health status
  \<^verbatim>\<open>ERROR\<close> is not a key of the health counters.
\<close>

definition workspace_document :: "string \<Rightarrow> string \<Rightarrow> string \<Rightarrow> string \<Rightarrow> json" where
  "workspace_document i n r u =
     JObj [(''id'', JStr i), (''name'', JStr n),
           (''location'', JObj [(''region'', JStr r), (''url'', JStr u)])]"

definition workspaces_document :: json where
  "workspaces_document =
     JObj [(''workspaces'',
            JArr [workspace_document ''ws-dal10'' ''DAL10'' ''dal10'' ''https://dal10.test'',
                  workspace_document ''ws-dal12'' ''DAL12'' ''dal12'' ''https://dal12.test'',
                  workspace_document ''ws-dal13'' ''DAL13'' ''dal13'' ''https://dal13.test''])]"

definition pvm_document :: "string \<Rightarrow> string \<Rightarrow> string \<Rightarrow> string \<Rightarrow> json" where
  "pvm_document n i st h =
     JObj [(''serverName'', JStr n), (''pvmInstanceID'', JStr i), (''osType'', JStr ''aix''),
           (''sysType'', JStr ''s922''), (''status'', JStr st),
           (''health'', JObj [(''status'', JStr h)]), (''crn'', JStr ''crn:vm'')]"

definition dal10_listing :: json where
  "dal10_listing =
     JObj [(''pvmInstances'',
            JArr [pvm_document ''db-server'' ''vm1'' ''ACTIVE'' ''OK'',
                  pvm_document ''app-server'' ''vm2'' ''SHUTOFF'' ''CRITICAL''])]"

definition dal13_listing :: json where
  "dal13_listing =
     JObj [(''pvmInstances'', JArr [pvm_document ''batch'' ''vm3'' ''ERROR'' ''ERROR''])]"

definition three_workspaces :: environment where
  "three_workspaces =
     \<lparr>respond = (\<lambda>n r. case r of
                     Post_token k \<Rightarrow> Response 200 (Inr token_document)
                   | Get (Workspaces_url b) h t \<Rightarrow> Response 200 (Inr workspaces_document)
                   | Get (Pvm_instances_url u w) h t \<Rightarrow>
                       if w = JStr ''ws-dal10'' then Response 200 (Inr dal10_listing)
                       else if w = JStr ''ws-dal13'' then Response 200 (Inr dal13_listing)
                       else Transport_failure ''timed out''
                   | Get u h t \<Rightarrow> Response 404 (Inl ''not json'')),
      clock = (\<lambda>n. 2000)\<rparr>"

text \<open>
  The same account, the listing call of \<^verbatim>\<open>ws-dal12\<close> having the given outcome.
\<close>

definition account_with :: "http_outcome \<Rightarrow> environment" where
  "account_with out =
     \<lparr>respond = (\<lambda>n r. case r of
                     Post_token k \<Rightarrow> Response 200 (Inr token_document)
                   | Get (Workspaces_url b) h t \<Rightarrow> Response 200 (Inr workspaces_document)
                   | Get (Pvm_instances_url u w) h t \<Rightarrow>
                       if w = JStr ''ws-dal10'' then Response 200 (Inr dal10_listing)
                       else if w = JStr ''ws-dal13'' then Response 200 (Inr dal13_listing)
                       else out
                   | Get u h t \<Rightarrow> Response 404 (Inl ''not json'')),
      clock = (\<lambda>n. 2000)\<rparr>"

definition the_record :: "workspace \<Rightarrow> string \<Rightarrow> string \<Rightarrow> string \<Rightarrow> string \<Rightarrow> vm_detail" where
  "the_record w n i st h =
     \<lparr>vmName = JStr n, vmID = JStr i, operatingSystem = JStr ''aix'', systemType = JStr ''s922'',
      vmStatus = JStr st, health = JObj [(''status'', JStr h)], vm_crn = JStr ''crn:vm'',
      workspaceName = Some (ws_name w), workspaceRegion = Some (ws_region w)\<rparr>"

text \<open>The inventory of this account: three records, two of them counted by health.\<close>

definition three_workspaces_inventory :: inventory where
  "three_workspaces_inventory =
     \<lparr>total_vms = 3, total_workspaces = 3,
      inv_health_summary = [(''OK'', 1), (''CRITICAL'', 1), (''WARNING'', 0), (''ATTENTION'', 0)],
      inv_status_summary = [(''ACTIVE'', 1), (''ERROR'', 1), (''SHUTOFF'', 1)],
      vms = [the_record dal10 ''db-server'' ''vm1'' ''ACTIVE'' ''OK'',
             the_record dal10 ''app-server'' ''vm2'' ''SHUTOFF'' ''CRITICAL'',
             the_record dal13 ''batch'' ''vm3'' ''ERROR'' ''ERROR'']\<rparr>"



section \<open>Notions of the specification\<close>

text \<open>
  The counters of an inventory, as the specification reads them: for each key of the fixed
  key set, the number of VM records whose normalised status is that key.
\<close>

definition health_keys :: "string list" where
  "health_keys = [''OK'', ''CRITICAL'', ''WARNING'', ''ATTENTION'']"

definition status_keys :: "string list" where
  "status_keys = [''ACTIVE'', ''ERROR'', ''SHUTOFF'']"

definition count_where :: "(vm_detail \<Rightarrow> exn + string) \<Rightarrow> vm_detail list \<Rightarrow> string \<Rightarrow> nat" where
  "count_where f records k = length (filter (\<lambda>d. f d = Inr k) records)"

definition summary_of ::
  "string list \<Rightarrow> (vm_detail \<Rightarrow> exn + string) \<Rightarrow> vm_detail list \<Rightarrow> (string \<times> nat) list" where
  "summary_of keys f records = map (\<lambda>k. (k, count_where f records k)) keys"

text \<open>
  Resolving a VM as the specification describes it for a cache older than its TTL: the
  fan-out first, then the lookup in the routing map it has rebuilt.
\<close>

definition refresh_then_lookup ::
  "environment \<Rightarrow> client \<Rightarrow> string \<Rightarrow> client \<times> (exn + json \<times> crn_value option \<times> json)" where
  "refresh_then_lookup E s vm_id =
     (case fetch_vms_from_all_workspaces E s of
        (s1, Inl e) \<Rightarrow> (s1, Inl e)
      | (s1, Inr result) \<Rightarrow> (s1, Inr (lookup_workspace s1 vm_id)))"

text \<open>
  A per-workspace listing call fails, in the words of the specification, on a transport
  error, on a status other than 200, and on a response without the \<^verbatim>\<open>pvmInstances\<close>
  payload.
\<close>

fun listing_fails :: "http_outcome \<Rightarrow> bool" where
  "listing_fails (Transport_failure msg) = True"
| "listing_fails (Response code body) =
     (code \<noteq> 200 \<or> (case body of Inl msg \<Rightarrow> True | Inr j \<Rightarrow> contains ''pvmInstances'' j \<noteq> Inr True))"






text \<open>
  The routing entries of a list of contributions: every record with a true identifier is
  routed to the identifier, the region and the URL of the workspace that listed it.
\<close>

definition add_routes :: "workspace \<Rightarrow> vm_detail list \<Rightarrow> (json \<rightharpoonup> route) \<Rightarrow> (json \<rightharpoonup> route)" where
  "add_routes w records m =
     fold (\<lambda>d m. if truthy (vmID d)
                  then m(vmID d \<mapsto> \<lparr>route_workspace_id = ws_id w, route_region = ws_region w,
                                      route_url = ws_url w\<rparr>)
                  else m) records m"







text \<open>The invariant of the fan-out loop: the counters count the records collected so far.\<close>

definition tally_consistent :: "tally \<Rightarrow> bool" where
  "tally_consistent acc \<longleftrightarrow>
     health_summary acc = summary_of health_keys health_status_of (vm_list acc) \<and>
     status_summary acc = summary_of status_keys vm_status_of (vm_list acc)"


section \<open>The concrete clients are clients that the constructor builds\<close>

lemma clients_constructed:
  "new_client ''key'' ''acct'' ''https://api.test'' [] = Inr account_client \<and>
   new_client ''key'' ''acct'' ''https://api.test''
     ''crn:v1:staging:public:power-iaas:dal10:a/acct:inst1::'' = Inr single_client"
  by (simp add: new_client_def account_client_def single_client_def
      extract_cloud_instance_id_from_crn_def)

section \<open>The fan-out loop keeps its counters consistent\<close>

text \<open>
  Whatever the services answer, every step of the two loops that returns keeps the counters
  equal to the counts of the records collected so far; so does every inventory returned.
\<close>

lemma initial_tally_consistent: "tally_consistent initial_tally"
  by (simp add: tally_consistent_def initial_tally_def summary_of_def health_keys_def
      status_keys_def count_where_def)

lemma summary_of_snoc:
  assumes "f d = Inr key"
  shows "bump key (summary_of keys f records) = summary_of keys f (records @ [d])"
  using assms by (auto simp: summary_of_def bump_def count_where_def)

lemma add_vm_consistent:
  assumes "add_vm w pvm s acc = (s1, Inr acc1)" and "tally_consistent acc"
  shows "tally_consistent acc1"
  using assms
  by (auto simp: add_vm_def tally_consistent_def summary_of_snoc
           split: sum.splits if_splits)

lemma add_vms_consistent:
  assumes "add_vms w pvms s acc = (s1, Inr acc1)" and "tally_consistent acc"
  shows "tally_consistent acc1"
  using assms
proof (induction pvms arbitrary: s acc)
  case Nil
  then show ?case by simp
next
  case (Cons pvm pvms)
  then show ?case
    by (auto split: prod.splits sum.splits dest: add_vm_consistent)
qed

lemma visit_workspace_consistent:
  assumes "visit_workspace E w s acc = (s1, Inr acc1)" and "tally_consistent acc"
  shows "tally_consistent acc1"
  using assms
  by (auto simp: visit_workspace_def split: prod.splits sum.splits if_splits bool.splits
           dest: add_vms_consistent)

lemma visit_all_consistent:
  assumes "visit_all E ws s acc = (s1, Inr acc1)" and "tally_consistent acc"
  shows "tally_consistent acc1"
  using assms
proof (induction ws arbitrary: s acc)
  case Nil
  then show ?case by simp
next
  case (Cons w ws)
  then show ?case
    by (auto split: prod.splits sum.splits dest: visit_workspace_consistent)
qed

lemma fanout_inventory:
  assumes "fetch_vms_from_all_workspaces E s = (s', Inr (Inventory iv))"
  shows "\<exists>s0 s1 ws acc. get_all_workspaces E s = (s0, Inr ws) \<and> ws \<noteq> [] \<and>
           visit_all E ws (s0\<lparr>vm_workspace := Map.empty\<rparr>) initial_tally = (s1, Inr acc) \<and>
           iv = \<lparr>total_vms = length (vm_list acc), total_workspaces = length ws,
                  inv_health_summary = health_summary acc,
                  inv_status_summary = status_summary acc, vms = vm_list acc\<rparr>"
  using assms
  by (auto simp: fetch_vms_from_all_workspaces_def time_now_def
           split: prod.splits sum.splits if_splits)

lemma count_sum_le:
  assumes "distinct keys"
  shows "sum_list (map (count_where f records) keys) \<le> length records"
proof (induction records)
  case Nil
  then show ?case by (simp add: count_where_def)
next
  case (Cons d records)
  have one: "sum_list (map (\<lambda>k. if f d = Inr k then 1 else 0) keys) \<le> (1::nat)"
    using assms by (induction keys) auto
  have "sum_list (map (count_where f (d # records)) keys)
        = sum_list (map (\<lambda>k. if f d = Inr k then 1 else 0) keys)
          + sum_list (map (count_where f records) keys)"
    by (induction keys) (auto simp: count_where_def)
  with one Cons show ?case by simp
qed

lemma bump_absent: "key \<notin> set (map fst summary) \<Longrightarrow> bump key summary = summary"
  by (induction summary) (auto simp: bump_def)

lemma add_vm_appends:
  assumes "add_vm w pvm s acc = (s1, Inr acc1)"
  shows "\<exists>d k. build_vm_detail pvm (Some (ws_name w, ws_region w)) = Inr d \<and>
           health_status_of d = Inr k \<and> vm_list acc1 = vm_list acc @ [d] \<and>
           (k \<notin> set (map fst (health_summary acc)) \<longrightarrow> health_summary acc1 = health_summary acc)"
  using assms
  by (auto simp: add_vm_def bump_absent split: sum.splits if_splits)

section \<open>The fan-out when it returns\<close>

text \<open>
  Whatever the services answer: a step of the inner loop that returns has built the record
  of its entry, appended it and routed it; a workspace step that returns has added the
  contribution of its workspace; a run of the outer loop that returns has added the
  contributions of all. The listing calls do not read the routing map, so the
  contributions do not depend on it.
\<close>

lemma add_routes_append:
  "add_routes w (xs @ ys) m = add_routes w ys (add_routes w xs m)"
  by (simp add: add_routes_def)






lemma get_headers_frame:
  "get_headers E s c = (s1, r) \<Longrightarrow>
     s1 = s\<lparr>tick := Suc (tick s), sent := sent s @ [Post_token (api_key s)]\<rparr>"
  by (auto simp: get_headers_def get_iam_token_def remote_call_def split: sum.splits if_splits)
















section \<open>What a fan-out and a refresh leave in the caches\<close>











section \<open>The verdicts of the health operations\<close>






section \<open>The claims\<close>

subsection \<open>Exceptions that reach the caller\<close>

text \<open>
  Claim C1: every public operation returns a JSON-serialisable structure or an error
  dictionary and never raises to its caller, whatever the remote calls do; in particular
  \<^verbatim>\<open>get_network_health\<close> and \<^verbatim>\<open>get_storage_health\<close> return a structured result when one
  of their remote fetches fails. The code behaves otherwise at the input below: the token
  exchange works, the request for the VM document (for the volumes) fails in the transport,
  and the \<^verbatim>\<open>RequestException\<close> leaves both operations, whose statements are outside any
  \<^verbatim>\<open>try\<close>. \<^verbatim>\<open>get_vm_snapshots\<close>, which wraps the same kind of request in a \<^verbatim>\<open>try\<close>,
  returns an error dictionary on the same service. Listing all VMs of the configured
  workspace raises as well when the listing is answered with an error document: the
  \<^verbatim>\<open>KeyError\<close> of \<^verbatim>\<open>responses['pvmInstances']\<close> is caught by neither handler of
  \<^verbatim>\<open>fetch_vms_from_specific_workspace\<close>.
\<close>

theorem health_fetch_failure_reaches_caller:
  "snd (get_network_health (resources_down 2000) single_client ''vm1'' JNull) =
     Inl (RequestException ''connection refused'') \<and>
   snd (get_storage_health (resources_down 2000) single_client ''vm1'') =
     Inl (RequestException ''connection refused'') \<and>
   snd (get_vm_snapshots (resources_down 2000) single_client ''vm1'') =
     Inr (Snapshots_error ''Failed to get the instance snapshots: connection refused'') \<and>
   snd (get_all_vms (unauthorized 2000) single_client) = Inl (KeyError ''pvmInstances'')"
  by code_simp

subsection \<open>A failed token exchange\<close>

text \<open>
  Claim C2: when the token exchange fails (transport error, or no \<^verbatim>\<open>access_token\<close> in the
  response), the header-building step yields no headers and the calling operation returns
  an error payload instead of issuing its remote request. The code behaves otherwise:
  \<^verbatim>\<open>get_iam_token\<close> returns the pair \<^verbatim>\<open>("", e)\<close> on both failures, the test
  \<^verbatim>\<open>if not token\<close> of \<^verbatim>\<open>_get_headers\<close> does not fire on a pair, and the headers are built.
  Below, for both failures, \<^verbatim>\<open>_get_headers\<close> returns a header dictionary, and
  \<^verbatim>\<open>fetch_vms_by_health_status\<close> goes on to send the listing request and returns a
  result that is no error.
\<close>

theorem failed_token_exchange_still_builds_headers:
  "snd (get_headers (unreachable 2000) single_client (Some (Configured_crn (crn single_client)))) =
     Inr (Some \<lparr>authorization = Failure_pair (RequestException ''unreachable''),
                crn_header = Some (Configured_crn (crn single_client))\<rparr>) \<and>
   snd (get_headers (tokenless 2000) single_client (Some (Configured_crn (crn single_client)))) =
     Inr (Some \<lparr>authorization = Failure_pair (KeyError ''access_token''),
                crn_header = Some (Configured_crn (crn single_client))\<rparr>) \<and>
   sent (fst (fetch_vms_by_health_status (tokenless 2000) single_client ''CRITICAL'')) =
     [Post_token ''key'',
      Get (Pvm_instances_url (JStr ''https://api.test'') (JStr ''inst1''))
        \<lparr>authorization = Failure_pair (KeyError ''access_token''),
         crn_header = Some (Configured_crn (crn single_client))\<rparr> 120] \<and>
   snd (fetch_vms_by_health_status (tokenless 2000) single_client ''CRITICAL'') =
     Inr (Filtered 0 [])"
  by code_simp

subsection \<open>Partial success of the fan-out\<close>

text \<open>
  Claim C3: in account-wide mode, for \<open>n\<close> known workspaces of which any subset fails
  (transport error, status other than 200, response without \<^verbatim>\<open>pvmInstances\<close>),
  \<^verbatim>\<open>fetch_vms_from_all_workspaces\<close> returns a result that is no error, whose records,
  routing entries and counters come from the succeeding workspaces only, with
  \<^verbatim>\<open>total_workspaces\<close> equal to \<open>n\<close>; a failing workspace contributes no record and no
  routing entry, and does not make the aggregation fail, the workspace list being
  non-empty.

  The loop skips a workspace whose fetch returned a true error string, and one whose
  listing is a container without the key. It misses the failing listings for which
  \<^verbatim>\<open>_fetch_vms_from_workspace\<close> returns a false error: a response with status 200 and the
  body \<^verbatim>\<open>null\<close> gives \<^verbatim>\<open>(None, None)\<close>, a transport failure whose message is empty gives
  \<^verbatim>\<open>(None, "")\<close>, and the test \<^verbatim>\<open>'pvmInstances' not in vm_data\<close> raises on \<^verbatim>\<open>None\<close>. Below,
  the account has three workspaces and the listing of the second fails in one of these two
  ways: the exception leaves the fan-out and \<^verbatim>\<open>get_all_vms\<close>, the third workspace is never
  asked, and the routing map is left with the entries of the first workspace and without a
  timestamp. With a transport failure that carries a message, the same account gives the
  inventory of the other two workspaces, which counts three workspaces.
\<close>

theorem fanout_raises_on_silent_listing_failure:
  "snd (get_all_workspaces (account_with (Response 200 (Inr JNull))) account_client) =
     Inr [dal10, dal12, dal13] \<and>
   \<not> single_workspace_mode account_client \<and>
   listing_fails (Response 200 (Inr JNull)) \<and>
   snd (fetch_vms_from_all_workspaces (account_with (Response 200 (Inr JNull))) account_client) =
     Inl (TypeError (''argument of type '' @ quoted ''NoneType'' @ '' is not iterable'')) \<and>
   snd (get_all_vms (account_with (Response 200 (Inr JNull))) account_client) =
     Inl (TypeError (''argument of type '' @ quoted ''NoneType'' @ '' is not iterable'')) \<and>
   map (vm_workspace
          (fst (fetch_vms_from_all_workspaces (account_with (Response 200 (Inr JNull)))
                  account_client)))
     [JStr ''vm1'', JStr ''vm2'', JStr ''vm3''] =
     [Some \<lparr>route_workspace_id = JStr ''ws-dal10'', route_region = JStr ''dal10'',
            route_url = JStr ''https://dal10.test''\<rparr>,
      Some \<lparr>route_workspace_id = JStr ''ws-dal10'', route_region = JStr ''dal10'',
            route_url = JStr ''https://dal10.test''\<rparr>,
      None] \<and>
   vm_workspace_time
     (fst (fetch_vms_from_all_workspaces (account_with (Response 200 (Inr JNull)))
             account_client)) = None \<and>
   length (sent (fst (fetch_vms_from_all_workspaces (account_with (Response 200 (Inr JNull)))
                        account_client))) = 6 \<and>
   listing_fails (Transport_failure []) \<and>
   snd (fetch_vms_from_all_workspaces (account_with (Transport_failure [])) account_client) =
     Inl (TypeError (''argument of type '' @ quoted ''NoneType'' @ '' is not iterable'')) \<and>
   snd (get_all_vms (account_with (Transport_failure [])) account_client) =
     Inl (TypeError (''argument of type '' @ quoted ''NoneType'' @ '' is not iterable'')) \<and>
   listing_fails (Transport_failure ''timed out'') \<and>
   snd (fetch_vms_from_all_workspaces (account_with (Transport_failure ''timed out''))
          account_client) =
     Inr (Inventory three_workspaces_inventory)"
  by code_simp

subsection \<open>The expired workspace cache\<close>

lemma stale_list_served_when_listing_fails:
  assumes "get_headers E s None = (s1, Inr (Some h))"
    and "outcome_json (respond E (tick s1) (Get (Workspaces_url (base_url s)) h 120)) = Inl e"
    and "workspaces s = Some cached"
  shows "snd (refresh_workspaces E s) = Inr cached"
proof -
  from get_headers_frame [OF assms(1)]
  have "s1 = s\<lparr>tick := Suc (tick s), sent := sent s @ [Post_token (api_key s)]\<rparr>" .
  with assms show ?thesis
    by (simp add: refresh_workspaces_def remote_call_def and_then_def)
qed

text \<open>
  Claim C4: with a workspace cache that is populated but expired, \<^verbatim>\<open>get_all_workspaces\<close>
  attempts a refresh; a successful refresh replaces list and timestamp and returns the fresh
  list; a failed refresh returns the cached list unchanged, never an empty list. The code
  serves the cached list when the listing request or its decoding raises
  (\<open>stale_list_served_when_listing_fails\<close>, and the last line below), but not in two
  other failures. Below the cache holds one workspace fetched at time 1000 and the clock
  reads 5000. When the listing request is answered with status 401 and an error document,
  the status code is not looked at (\<^verbatim>\<open>_fetch_vms_from_workspace\<close> does look at it), the
  document has no \<^verbatim>\<open>workspaces\<close>, and the empty list is cached in place of the
  list and returned. When the token exchange answers with an empty \<^verbatim>\<open>access_token\<close>,
  \<^verbatim>\<open>if not headers: return []\<close> comes before the \<^verbatim>\<open>try\<close> whose handler holds the
  fallback, and the empty list is returned.
\<close>

theorem expired_cache_not_served_on_failed_refresh:
  "workspaces cached_client = Some [dal10] \<and>
   workspaces_time cached_client = Some 1000 \<and>
   WORKSPACE_CACHE_TTL < clock (unauthorized 5000) (tick cached_client) - 1000 \<and>
   snd (get_all_workspaces (unauthorized 5000) cached_client) = Inr [] \<and>
   workspaces (fst (get_all_workspaces (unauthorized 5000) cached_client)) = Some [] \<and>
   snd (get_all_workspaces (empty_token 5000) cached_client) = Inr [] \<and>
   snd (get_all_workspaces (unreachable 5000) cached_client) = Inr [dal10]"
  by code_simp

subsection \<open>Resolving the workspace of a VM\<close>

text \<open>
  Claim C5, as amended: a call of \<^verbatim>\<open>_get_workspace_for_vm\<close> runs the full fan-out before it
  consults the routing map whenever the routing cache carries a timestamp (other than zero)
  that is older than the TTL of 300 seconds; when the routing cache was never populated (no
  timestamp) no fan-out is run and the map is consulted as it is.
\<close>

theorem routing_refresh_only_when_stamped:
  "(vm_workspace_time s = Some t \<and> t \<noteq> 0 \<and> VM_CACHE_TTL < clock E (tick s) - t \<longrightarrow>
      get_workspace_for_vm E s vm_id = refresh_then_lookup E (s\<lparr>tick := Suc (tick s)\<rparr>) vm_id) \<and>
   (vm_workspace_time s = None \<longrightarrow>
      get_workspace_for_vm E s vm_id = (s, Inr (lookup_workspace s vm_id)))"
  by (simp add: get_workspace_for_vm_def refresh_then_lookup_def time_now_def)

theorem routing_refresh_only_when_stamped_witness:
  "vm_workspace_time routed_client = Some 1000 \<and>
   VM_CACHE_TTL < clock three_workspaces (tick routed_client) - 1000 \<and>
   get_workspace_for_vm three_workspaces routed_client ''vm1'' =
     refresh_then_lookup three_workspaces (routed_client\<lparr>tick := Suc (tick routed_client)\<rparr>) ''vm1'' \<and>
   vm_workspace_time account_client = None \<and>
   get_workspace_for_vm three_workspaces account_client ''vm1'' =
     (account_client, Inr (lookup_workspace account_client ''vm1''))"
proof -
  have a: "vm_workspace_time routed_client = Some 1000 \<and> (1000::real) \<noteq> 0 \<and>
           VM_CACHE_TTL < clock three_workspaces (tick routed_client) - 1000"
    by (simp add: routed_client_def cached_client_def account_client_def three_workspaces_def
        VM_CACHE_TTL_def)
  have b: "vm_workspace_time account_client = None"
    by (simp add: account_client_def)
  from routing_refresh_only_when_stamped [of routed_client 1000 three_workspaces "''vm1''"]
    routing_refresh_only_when_stamped [of account_client 0 three_workspaces "''vm1''"] a b
  show ?thesis by simp
qed

text \<open>
  The claim as it was stated covers the cache that was never populated. There the code
  sends no request and reports the VM as not found, although the fan-out would have routed
  it.
\<close>

theorem unpopulated_routing_cache_counterexample:
  "vm_workspace_time account_client = None \<and>
   sent (fst (get_workspace_for_vm three_workspaces account_client ''vm1'')) = [] \<and>
   snd (get_workspace_for_vm three_workspaces account_client ''vm1'') = Inr (JNull, None, JNull) \<and>
   snd (refresh_then_lookup three_workspaces account_client ''vm1'') =
     Inr (JStr ''ws-dal10'', Some (Workspace_crn (JStr ''dal10'') ''acct'' (JStr ''ws-dal10'')),
          JStr ''https://dal10.test'')"
  by code_simp

subsection \<open>What a refresh does to the caches\<close>





subsection \<open>The overall health of a VM\<close>



subsection \<open>The valid workspace cache\<close>

text \<open>
  Claim C8: with a workspace cache that is valid (its age at most 1800 seconds), two
  consecutive calls of \<^verbatim>\<open>get_all_workspaces\<close> that both fall within the TTL return the
  same list, the cached one, and neither issues a remote request.
\<close>

theorem workspace_cache_idempotent:
  assumes "workspaces s = Some ws" and "workspaces_time s = Some t"
    and "clock E (tick s) - t \<le> WORKSPACE_CACHE_TTL"
    and "clock E (Suc (tick s)) - t \<le> WORKSPACE_CACHE_TTL"
  shows "case get_all_workspaces E s of (s1, r1) \<Rightarrow>
           (case get_all_workspaces E s1 of (s2, r2) \<Rightarrow>
              r1 = Inr ws \<and> r2 = Inr ws \<and> sent s1 = sent s \<and> sent s2 = sent s \<and>
              workspaces s2 = Some ws \<and> workspaces_time s2 = Some t)"
  using assms by (simp add: get_all_workspaces_def time_now_def)

theorem workspace_cache_idempotent_witness:
  "workspaces cached_client = Some [dal10] \<and> workspaces_time cached_client = Some 1000 \<and>
   clock (unreachable 2000) (tick cached_client) - 1000 \<le> WORKSPACE_CACHE_TTL \<and>
   clock (unreachable 2000) (Suc (tick cached_client)) - 1000 \<le> WORKSPACE_CACHE_TTL \<and>
   (case get_all_workspaces (unreachable 2000) cached_client of (s1, r1) \<Rightarrow>
      (case get_all_workspaces (unreachable 2000) s1 of (s2, r2) \<Rightarrow>
         r1 = Inr [dal10] \<and> r2 = Inr [dal10] \<and> sent s1 = [] \<and> sent s2 = [] \<and>
         workspaces s2 = Some [dal10] \<and> workspaces_time s2 = Some 1000))"
proof -
  have h: "workspaces cached_client = Some [dal10]" "workspaces_time cached_client = Some 1000"
    "clock (unreachable 2000) (tick cached_client) - 1000 \<le> WORKSPACE_CACHE_TTL"
    "clock (unreachable 2000) (Suc (tick cached_client)) - 1000 \<le> WORKSPACE_CACHE_TTL"
    by (simp_all add: cached_client_def account_client_def unreachable_def
        WORKSPACE_CACHE_TTL_def)
  have e: "sent cached_client = []"
    by (simp add: cached_client_def account_client_def)
  from workspace_cache_idempotent [OF h] h e show ?thesis
    by (simp split: prod.splits)
qed

subsection \<open>The health counters of an inventory\<close>

lemma three_workspaces_result:
  "snd (fetch_vms_from_all_workspaces three_workspaces account_client) =
     Inr (Inventory three_workspaces_inventory)"
  by code_simp

text \<open>
  Claim C9: in every inventory that the fan-out returns, the health counters sum to at most
  \<^verbatim>\<open>total_vms\<close>: each counter is the number of records of \<^verbatim>\<open>vms\<close> whose normalised health
  status is its key, so a VM whose status is outside the key set OK, CRITICAL, WARNING,
  ATTENTION is in no counter, and it is still in \<^verbatim>\<open>vms\<close> and counted in \<^verbatim>\<open>total_vms\<close>,
  which is the length of \<^verbatim>\<open>vms\<close>: the loop appends the record of every VM it
  processes, and leaves the health counters as they are when its status is no key.
\<close>

theorem health_summary_bounded:
  assumes "fetch_vms_from_all_workspaces E s = (s', Inr (Inventory iv))"
  shows "sum_list (map snd (inv_health_summary iv)) \<le> total_vms iv \<and>
         total_vms iv = length (vms iv) \<and>
         inv_health_summary iv = summary_of health_keys health_status_of (vms iv) \<and>
         (\<forall>w pvm s0 acc s1 acc1.
            add_vm w pvm s0 acc = (s1, Inr acc1) \<longrightarrow>
            (\<exists>d k. build_vm_detail pvm (Some (ws_name w, ws_region w)) = Inr d \<and>
                   health_status_of d = Inr k \<and> vm_list acc1 = vm_list acc @ [d] \<and>
                   (k \<notin> set (map fst (health_summary acc)) \<longrightarrow>
                      health_summary acc1 = health_summary acc)))"
proof -
  from fanout_inventory [OF assms] obtain s0 s1 ws acc where
    run: "visit_all E ws (s0\<lparr>vm_workspace := Map.empty\<rparr>) initial_tally = (s1, Inr acc)"
    and iv: "iv = \<lparr>total_vms = length (vm_list acc), total_workspaces = length ws,
                  inv_health_summary = health_summary acc,
                  inv_status_summary = status_summary acc, vms = vm_list acc\<rparr>"
    by blast
  have c: "tally_consistent acc"
    using visit_all_consistent [OF run initial_tally_consistent] .
  have "sum_list (map snd (summary_of health_keys health_status_of (vm_list acc)))
        = sum_list (map (count_where health_status_of (vm_list acc)) health_keys)"
    by (simp add: summary_of_def comp_def)
  also have "\<dots> \<le> length (vm_list acc)"
    by (rule count_sum_le) (simp add: health_keys_def)
  finally have "sum_list (map snd (inv_health_summary iv)) \<le> total_vms iv \<and>
         total_vms iv = length (vms iv) \<and>
         inv_health_summary iv = summary_of health_keys health_status_of (vms iv)"
    using c iv by (simp add: tally_consistent_def)
  then show ?thesis
    using add_vm_appends by blast
qed

text \<open>
  In the account of three workspaces the third VM has the health status \<^verbatim>\<open>ERROR\<close>: the
  counters sum to two, the inventory holds three records.
\<close>

theorem health_summary_bounded_witness:
  "snd (fetch_vms_from_all_workspaces three_workspaces account_client) =
     Inr (Inventory three_workspaces_inventory) \<and>
   sum_list (map snd (inv_health_summary three_workspaces_inventory)) = 2 \<and>
   total_vms three_workspaces_inventory = 3 \<and>
   length (vms three_workspaces_inventory) = 3 \<and>
   health_status_of (vms three_workspaces_inventory ! 2) = Inr ''ERROR'' \<and>
   snd (add_vm dal13 (pvm_document ''batch'' ''vm3'' ''ERROR'' ''ERROR'') account_client
          initial_tally) =
     Inr (initial_tally\<lparr>vm_list := [the_record dal13 ''batch'' ''vm3'' ''ERROR'' ''ERROR''],
                         status_summary := [(''ACTIVE'', 0), (''ERROR'', 1), (''SHUTOFF'', 0)]\<rparr>)"
proof -
  have "fetch_vms_from_all_workspaces three_workspaces account_client =
          (fst (fetch_vms_from_all_workspaces three_workspaces account_client),
           Inr (Inventory three_workspaces_inventory))"
    using three_workspaces_result by (metis prod.collapse)
  from health_summary_bounded [OF this]
  have "total_vms three_workspaces_inventory = length (vms three_workspaces_inventory)"
    by simp
  moreover have "sum_list (map snd (inv_health_summary three_workspaces_inventory)) = 2"
    by (simp add: three_workspaces_inventory_def)
  moreover have "total_vms three_workspaces_inventory = 3"
    by (simp add: three_workspaces_inventory_def)
  moreover have "health_status_of (vms three_workspaces_inventory ! 2) = Inr ''ERROR''"
    by code_simp
  moreover have
    "snd (add_vm dal13 (pvm_document ''batch'' ''vm3'' ''ERROR'' ''ERROR'') account_client
            initial_tally) =
       Inr (initial_tally\<lparr>vm_list := [the_record dal13 ''batch'' ''vm3'' ''ERROR'' ''ERROR''],
                           status_summary := [(''ACTIVE'', 0), (''ERROR'', 1), (''SHUTOFF'', 0)]\<rparr>)"
    by code_simp
  ultimately show ?thesis
    using three_workspaces_result by simp
qed

subsection \<open>The critical VMs\<close>

text \<open>
  Claim C10: for every client and every behaviour of the remote services,
  \<^verbatim>\<open>get_critical_vms()\<close> returns what \<^verbatim>\<open>fetch_vms_by_health_status("CRITICAL")\<close> returns,
  and leaves the client in the same state.
\<close>

theorem critical_vms_is_health_filter:
  "get_critical_vms E s = fetch_vms_by_health_status E s ''CRITICAL''"
  by (simp add: get_critical_vms_def)

theorem critical_vms_is_health_filter_witness:
  "get_critical_vms three_workspaces account_client =
     fetch_vms_by_health_status three_workspaces account_client ''CRITICAL'' \<and>
   snd (get_critical_vms three_workspaces account_client) =
     Inr (Filtered 1 [the_record dal10 ''app-server'' ''vm2'' ''SHUTOFF'' ''CRITICAL''])"
proof -
  have "snd (fetch_vms_by_health_status three_workspaces account_client ''CRITICAL'') =
          Inr (Filtered 1 [the_record dal10 ''app-server'' ''vm2'' ''SHUTOFF'' ''CRITICAL''])"
    by code_simp
  with critical_vms_is_health_filter [of three_workspaces account_client] show ?thesis
    by simp
qed

end
